theory Spec2Isabelle
  imports Main
begin

section \<open>Rendered markup\<close>

text \<open>
  A component returns a tree of JSX values. Host elements (\<open>div\<close>, \<open>input\<close>, ...) carry
  a tag, their attributes and their children; child components (\<open>Controls\<close>, \<open>Link\<close>,
  \<open>Releases\<close>, ...) are kept as unexpanded elements with their props, since their own
  render functions live in other modules. The JavaScript values \<open>null\<close> and \<open>false\<close>,
  which the \<open>&&\<close> idiom leaves in a child position, are values of the tree too.
  The type parameter \<open>'h\<close> is the type of event handlers.
\<close>

text \<open>
  Modelled from the spec: the declaration of the inventory item type is not part of the
  sources at hand; the fields are those the Core Info Panel reads
  (\<open>inventoryItem.repository.platform\<close>).
\<close>

record repository =
  platform :: string

record inventoryItem =
  repository :: repository

record 'h control =
  ctype :: string
  ctext :: string
  onClick :: 'h

datatype 'h attr =
    AStr string
  | ABool bool
  | AHandler 'h
  | AControls "'h control list"
  | AInventory inventoryItem

datatype 'h node =
    Element string "(string \<times> 'h attr) list" "'h node list"
  | Component string "(string \<times> 'h attr) list" "'h node list"
  | Suspense "'h node" "'h node list"
  | Text string
  | JNull
  | JFalse

text \<open>
  What React shows of a list of children: \<open>null\<close>, \<open>false\<close> and the empty string
  produce nothing. A suspension boundary has no markup of its own; with nothing to show
  inside it contributes nothing, otherwise it stays a boundary around what is shown
  (content or fallback is decided by the loading state of the children).
\<close>

fun visible :: "'h node list \<Rightarrow> 'h node list" where
  "visible [] = []"
| "visible (JNull # r) = visible r"
| "visible (JFalse # r) = visible r"
| "visible (Text s # r) = (if s = [] then visible r else Text s # visible r)"
| "visible (Suspense fb cs # r) =
     (if visible cs = [] then [] else [Suspense fb (visible cs)]) @ visible r"
| "visible (Element t as cs # r) = Element t as (visible cs) # visible r"
| "visible (Component n as cs # r) = Component n as cs # visible r"

definition rendered :: "'h node \<Rightarrow> 'h node list" where
  "rendered n = visible [n]"

fun children :: "'h node \<Rightarrow> 'h node list" where
  "children (Element t as cs) = cs"
| "children (Component n as cs) = cs"
| "children (Suspense fb cs) = cs"
| "children (Text s) = []"
| "children JNull = []"
| "children JFalse = []"

fun attrs :: "'h node \<Rightarrow> (string \<times> 'h attr) list" where
  "attrs (Element t as cs) = as"
| "attrs (Component n as cs) = as"
| "attrs (Suspense fb cs) = []"
| "attrs (Text s) = []"
| "attrs JNull = []"
| "attrs JFalse = []"

fun is_element :: "string \<Rightarrow> 'h node \<Rightarrow> bool" where
  "is_element tag (Element t as cs) = (t = tag)"
| "is_element tag (Component n as cs) = False"
| "is_element tag (Suspense fb cs) = False"
| "is_element tag (Text s) = False"
| "is_element tag JNull = False"
| "is_element tag JFalse = False"

fun is_component :: "string \<Rightarrow> 'h node \<Rightarrow> bool" where
  "is_component name (Component n as cs) = (n = name)"
| "is_component name (Element t as cs) = False"
| "is_component name (Suspense fb cs) = False"
| "is_component name (Text s) = False"
| "is_component name JNull = False"
| "is_component name JFalse = False"

definition has_class :: "string \<Rightarrow> 'h node \<Rightarrow> bool" where
  "has_class c n = (map_of (attrs n) ''className'' = Some (AStr c))"

text \<open>The host elements of a tree, outermost first, in document order.\<close>

fun elements :: "'h node \<Rightarrow> 'h node list" where
  "elements (Element t as cs) = Element t as cs # concat (map elements cs)"
| "elements (Suspense fb cs) = concat (map elements cs)"
| "elements (Component n as cs) = []"
| "elements (Text s) = []"
| "elements JNull = []"
| "elements JFalse = []"

definition elements_of :: "'h node list \<Rightarrow> 'h node list" where
  "elements_of ns = concat (map elements ns)"

section \<open>Layout: the view switcher\<close>

datatype action = SetViewName string

fun dispatch :: "action \<Rightarrow> string \<Rightarrow> string" where
  "dispatch (SetViewName v) viewName = v"

definition views :: "string list" where
  "views = [''Games'', ''Cores'', ''Screenshots'', ''Saves'']"

definition viewName_init :: string where
  "viewName_init = ''''"

definition menu_item :: "string \<Rightarrow> string \<Rightarrow> action node" where
  "menu_item viewName v =
     Element ''div''
       [(''className'', AStr (''layout__sidebar-menu-item '' @
           (if viewName = v then ''layout__sidebar-menu-item--active'' else ''''))),
        (''key'', AStr v),
        (''onClick'', AHandler (SetViewName v))]
       [Text v]"

definition Layout :: "string \<Rightarrow> action node" where
  "Layout viewName =
     Element ''div'' [(''className'', AStr ''layout'')]
       [Element ''div'' [(''className'', AStr ''layout__sidebar-menu'')]
          (map (menu_item viewName) views),
        Element ''div'' [(''className'', AStr ''layout__content'')]
          [Suspense (Component ''Loader'' [] [])
             [if viewName = ''Screenshots'' then Component ''Screenshots'' [] [] else JFalse]]]"

text \<open>The handler that a click on an element runs, when it has one.\<close>

definition onClick_of :: "'h node \<Rightarrow> 'h option" where
  "onClick_of n =
     (case map_of (attrs n) ''onClick'' of
        Some (AHandler h) \<Rightarrow> Some h
      | _ \<Rightarrow> None)"

fun text_of :: "'h node \<Rightarrow> string" where
  "text_of (Text s) = s"
| "text_of (Element t as cs) = concat (map text_of cs)"
| "text_of (Component n as cs) = []"
| "text_of (Suspense fb cs) = concat (map text_of cs)"
| "text_of JNull = []"
| "text_of JFalse = []"

definition find_class :: "string \<Rightarrow> 'h node list \<Rightarrow> 'h node option" where
  "find_class c ns = find (has_class c) (elements_of ns)"

definition menu_items :: "string \<Rightarrow> action node list" where
  "menu_items viewName =
     (case find_class ''layout__sidebar-menu'' (rendered (Layout viewName)) of
        None \<Rightarrow> []
      | Some m \<Rightarrow> children m)"

text \<open>
  A click on the menu entry showing label \<open>v\<close> runs that entry's \<open>onClick\<close> handler on
  the component state; there is nothing to click for a label the menu does not show.
\<close>

definition click :: "string \<Rightarrow> string \<Rightarrow> string" where
  "click v viewName =
     (case find (\<lambda>i. text_of i = v) (menu_items viewName) of
        None \<Rightarrow> viewName
      | Some i \<Rightarrow> (case onClick_of i of None \<Rightarrow> viewName | Some a \<Rightarrow> dispatch a viewName))"

fun clicks :: "string list \<Rightarrow> string \<Rightarrow> string" where
  "clicks [] viewName = viewName"
| "clicks (v # vs) viewName = clicks vs (click v viewName)"

text \<open>The class names of an element: its \<open>className\<close> attribute split at spaces.\<close>

fun class_tokens :: "string \<Rightarrow> string \<Rightarrow> string list" where
  "class_tokens acc [] = (if acc = [] then [] else [acc])"
| "class_tokens acc (c # cs) =
     (if c = CHR '' '' then (if acc = [] then [] else [acc]) @ class_tokens [] cs
      else class_tokens (acc @ [c]) cs)"

definition class_names :: "'h node \<Rightarrow> string list" where
  "class_names n =
     (case map_of (attrs n) ''className'' of
        Some (AStr s) \<Rightarrow> class_tokens [] s
      | _ \<Rightarrow> [])"

definition is_active :: "'h node \<Rightarrow> bool" where
  "is_active n = (''layout__sidebar-menu-item--active'' \<in> set (class_names n))"

definition active_labels :: "string \<Rightarrow> string list" where
  "active_labels viewName = map text_of (filter is_active (menu_items viewName))"

definition content_region :: "string \<Rightarrow> action node option" where
  "content_region viewName = find_class ''layout__content'' (rendered (Layout viewName))"

section \<open>Global state: the atoms\<close>

datatype PocketModelColour = black | white

record atoms =
  pocketPathAtom :: "string option"
  fileSystemInvalidationAtom :: int
  PocketModelColourAtom :: PocketModelColour
  iventoryInvalidationAtom :: int
  configInvalidationAtom :: int

text \<open>
  The defaults; each of the three \<open>Date.now()\<close> calls is a reading of the clock taken
  when the module is loaded, passed in here.
\<close>

definition atoms_default :: "int \<Rightarrow> int \<Rightarrow> int \<Rightarrow> atoms" where
  "atoms_default now1 now2 now3 =
     \<lparr> pocketPathAtom = None,
       fileSystemInvalidationAtom = now1,
       PocketModelColourAtom = black,
       iventoryInvalidationAtom = now2,
       configInvalidationAtom = now3 \<rparr>"

section \<open>The Core Info Panel\<close>

text \<open>
  Modelled from the spec: the type declaration of the resolved core record is not part
  of the sources at hand. The fields are those the panel reads; the URL and the release
  date are optional strings, the cartridge adapter is a number.
\<close>

record coreMetadata =
  shortname :: string
  platform_ids :: "string list"
  description :: string
  author :: string
  url :: "string option"
  date_release :: "string option"

record coreDock =
  supported :: bool
  analog_output :: bool

record coreHardware =
  cartridge_adapter :: int

record coreFramework =
  sleep_supported :: bool
  dock :: coreDock
  hardware :: coreHardware

record coreJSON =
  metadata :: coreMetadata
  framework :: coreFramework

record coreInfoJSON =
  core :: coreJSON

record 'h CoreInfoProps =
  coreName :: string
  onBack :: 'h

text \<open>
  Everything a render can read: the atoms, the clock, and the three hooks the panel
  calls, each keyed by core name and taken as already resolved.
\<close>

record env =
  store :: atoms
  clock :: int
  CoreInfoSelectorFamily :: "string \<Rightarrow> coreInfoJSON"
  CoreAuthorImageSelectorFamily :: "string \<Rightarrow> string"
  useInventoryItem :: "string \<Rightarrow> inventoryItem option"

text \<open>
  \<open>s && x\<close> for an optional string \<open>s\<close>: the value is \<open>s\<close> itself when \<open>s\<close> is falsy
  (\<open>null\<close>, \<open>undefined\<close> or the empty string), and \<open>x\<close> otherwise.
\<close>

definition and_string :: "string option \<Rightarrow> (string \<Rightarrow> 'h node) \<Rightarrow> 'h node" where
  "and_string s x =
     (case s of
        None \<Rightarrow> JNull
      | Some v \<Rightarrow> if v = [] then Text v else x v)"

definition info_row :: "string \<Rightarrow> 'h node list \<Rightarrow> 'h node" where
  "info_row label body =
     Element ''div'' [(''className'', AStr ''core-info__info-row'')]
       (Element ''strong'' [] [Text label] # body)"

definition checkbox :: "bool \<Rightarrow> 'h node" where
  "checkbox b =
     Element ''input''
       [(''readOnly'', ABool True), (''type'', AStr ''checkbox''), (''checked'', ABool b)] []"

definition CoreInfo_view ::
  "'h CoreInfoProps \<Rightarrow> coreInfoJSON \<Rightarrow> string \<Rightarrow> inventoryItem option \<Rightarrow> 'h node" where
  "CoreInfo_view props coreInfo authorImageSrc inventoryItem =
     Element ''div'' [(''className'', AStr ''core-info'')]
       ([Component ''Controls''
           [(''controls'', AControls
               [\<lparr> ctype = ''back-button'', ctext = ''Back to list'', onClick = onBack props \<rparr>])]
           [],
         Element ''h3'' [(''className'', AStr ''core-info__title'')]
           [Text (shortname (metadata (core coreInfo)))]]
        @ map (\<lambda>platformId.
                 Component ''PlatformImage''
                   [(''className'', AStr ''core-info__image''),
                    (''platformId'', AStr platformId),
                    (''key'', AStr platformId)] [])
            (platform_ids (metadata (core coreInfo)))
        @ [Element ''section'' [(''className'', AStr ''core-info__info'')]
             [Element ''p'' [] [Text (description (metadata (core coreInfo)))],
              info_row ''Version:''
                [Component ''Version'' [(''coreName'', AStr (coreName props))] []],
              info_row ''Author:''
                [Element ''div'' [(''className'', AStr ''core-info__author-tag'')]
                   [Element ''img'' [(''src'', AStr authorImageSrc)] [],
                    Text (author (metadata (core coreInfo)))]],
              and_string (url (metadata (core coreInfo)))
                (\<lambda>u. info_row ''URL:'' [Component ''Link'' [(''href'', AStr u)] [Text u]]),
              and_string (date_release (metadata (core coreInfo)))
                (\<lambda>d. info_row ''Release Date:'' [Text d]),
              info_row ''Supports Sleep:''
                [checkbox (sleep_supported (framework (core coreInfo)))],
              info_row ''Supports Dock:''
                [checkbox (supported (dock (framework (core coreInfo))))],
              info_row ''Supports Dock Analog:''
                [checkbox (analog_output (dock (framework (core coreInfo))))],
              info_row ''Supports Cartridges:''
                [checkbox (cartridge_adapter (hardware (framework (core coreInfo))) \<noteq> - 1)],
              (case inventoryItem of
                 None \<Rightarrow> JNull
               | Some item \<Rightarrow>
                   if platform (repository item) = ''github''
                   then Component ''Releases'' [(''inventoryItem'', AInventory item)] []
                   else JFalse)]])"

definition CoreInfo :: "env \<Rightarrow> 'h CoreInfoProps \<Rightarrow> 'h node" where
  "CoreInfo e props =
     (let coreInfo = CoreInfoSelectorFamily e (coreName props);
          authorImageSrc = CoreAuthorImageSelectorFamily e (coreName props);
          inventoryItem = useInventoryItem e (coreName props)
      in CoreInfo_view props coreInfo authorImageSrc inventoryItem)"

text \<open>What the claims read off the rendered panel.\<close>

definition info_rows :: "'h node list \<Rightarrow> 'h node list" where
  "info_rows ns = filter (has_class ''core-info__info-row'') (elements_of ns)"

definition row_label :: "'h node \<Rightarrow> string" where
  "row_label r = (case children r of [] \<Rightarrow> [] | h # body \<Rightarrow> text_of h)"

definition labelled_rows :: "string \<Rightarrow> 'h node list \<Rightarrow> 'h node list" where
  "labelled_rows l ns = filter (\<lambda>r. row_label r = l) (info_rows ns)"

definition is_checkbox :: "'h node \<Rightarrow> bool" where
  "is_checkbox n = (is_element ''input'' n \<and> map_of (attrs n) ''type'' = Some (AStr ''checkbox''))"

definition checked_of :: "'h node \<Rightarrow> bool option" where
  "checked_of n =
     (case map_of (attrs n) ''checked'' of
        Some (ABool b) \<Rightarrow> Some b
      | _ \<Rightarrow> None)"

definition row_checkbox :: "'h node \<Rightarrow> (string \<times> bool) option" where
  "row_checkbox r =
     (case find is_checkbox (children r) of
        None \<Rightarrow> None
      | Some c \<Rightarrow> map_option (Pair (row_label r)) (checked_of c))"

definition checkboxes :: "'h node list \<Rightarrow> (string \<times> bool) list" where
  "checkboxes ns = List.map_filter row_checkbox (info_rows ns)"

definition section_children :: "'h node list \<Rightarrow> 'h node list" where
  "section_children ns =
     (case find (is_element ''section'') (elements_of ns) of
        None \<Rightarrow> []
      | Some s \<Rightarrow> children s)"

text \<open>The children of the section that follow the info row labelled \<open>l\<close>.\<close>

definition after_row :: "string \<Rightarrow> 'h node list \<Rightarrow> 'h node list" where
  "after_row l ns =
     drop 1 (dropWhile (\<lambda>n. \<not> (has_class ''core-info__info-row'' n \<and> row_label n = l))
               (section_children ns))"

definition releases_panels :: "'h node list \<Rightarrow> 'h node list" where
  "releases_panels ns = filter (is_component ''Releases'') (section_children ns)"

definition cartridge_checkbox :: "'h node list \<Rightarrow> bool option" where
  "cartridge_checkbox ns = map_of (checkboxes ns) ''Supports Cartridges:''"

subsection \<open>Closed forms used in the proofs\<close>

text \<open>The list a truthy optional string contributes, and nothing for a falsy one.\<close>

definition when_truthy :: "string option \<Rightarrow> (string \<Rightarrow> 'a list) \<Rightarrow> 'a list" where
  "when_truthy s f = (case s of None \<Rightarrow> [] | Some v \<Rightarrow> if v = [] then [] else f v)"

definition releases_of :: "inventoryItem option \<Rightarrow> 'h node list" where
  "releases_of inventoryItem =
     (case inventoryItem of
        None \<Rightarrow> []
      | Some item \<Rightarrow>
          if platform (repository item) = ''github''
          then [Component ''Releases'' [(''inventoryItem'', AInventory item)] []]
          else [])"

text \<open>What is shown of the children of the panel's section.\<close>

definition section_shown ::
  "'h CoreInfoProps \<Rightarrow> coreInfoJSON \<Rightarrow> string \<Rightarrow> inventoryItem option \<Rightarrow> 'h node list" where
  "section_shown props coreInfo authorImageSrc inventoryItem =
     [Element ''p'' [] (visible [Text (description (metadata (core coreInfo)))]),
      info_row ''Version:'' [Component ''Version'' [(''coreName'', AStr (coreName props))] []],
      info_row ''Author:''
        [Element ''div'' [(''className'', AStr ''core-info__author-tag'')]
           (Element ''img'' [(''src'', AStr authorImageSrc)] [] #
            visible [Text (author (metadata (core coreInfo)))])]]
     @ when_truthy (url (metadata (core coreInfo)))
         (\<lambda>u. [info_row ''URL:'' [Component ''Link'' [(''href'', AStr u)] [Text u]]])
     @ when_truthy (date_release (metadata (core coreInfo)))
         (\<lambda>d. [info_row ''Release Date:'' [Text d]])
     @ [info_row ''Supports Sleep:'' [checkbox (sleep_supported (framework (core coreInfo)))],
        info_row ''Supports Dock:'' [checkbox (supported (dock (framework (core coreInfo))))],
        info_row ''Supports Dock Analog:''
          [checkbox (analog_output (dock (framework (core coreInfo))))],
        info_row ''Supports Cartridges:''
          [checkbox (cartridge_adapter (hardware (framework (core coreInfo))) \<noteq> - 1)]]
     @ releases_of inventoryItem"

text \<open>The info rows among them, in order.\<close>

definition rows_shown :: "'h CoreInfoProps \<Rightarrow> coreInfoJSON \<Rightarrow> string \<Rightarrow> 'h node list" where
  "rows_shown props coreInfo authorImageSrc =
     [info_row ''Version:'' [Component ''Version'' [(''coreName'', AStr (coreName props))] []],
      info_row ''Author:''
        [Element ''div'' [(''className'', AStr ''core-info__author-tag'')]
           (Element ''img'' [(''src'', AStr authorImageSrc)] [] #
            visible [Text (author (metadata (core coreInfo)))])]]
     @ when_truthy (url (metadata (core coreInfo)))
         (\<lambda>u. [info_row ''URL:'' [Component ''Link'' [(''href'', AStr u)] [Text u]]])
     @ when_truthy (date_release (metadata (core coreInfo)))
         (\<lambda>d. [info_row ''Release Date:'' [Text d]])
     @ [info_row ''Supports Sleep:'' [checkbox (sleep_supported (framework (core coreInfo)))],
        info_row ''Supports Dock:'' [checkbox (supported (dock (framework (core coreInfo))))],
        info_row ''Supports Dock Analog:''
          [checkbox (analog_output (dock (framework (core coreInfo))))],
        info_row ''Supports Cartridges:''
          [checkbox (cartridge_adapter (hardware (framework (core coreInfo))) \<noteq> - 1)]]"

subsection \<open>Sample inputs\<close>

definition sample_core :: "string option \<Rightarrow> string option \<Rightarrow> int \<Rightarrow> coreInfoJSON" where
  "sample_core u d adapter =
     \<lparr> core =
         \<lparr> metadata =
             \<lparr> shortname = ''GBC'', platform_ids = [''gb'', ''gbc''],
               description = ''Game Boy'', author = ''Spiritualized'',
               url = u, date_release = d \<rparr>,
           framework =
             \<lparr> sleep_supported = True,
               dock = \<lparr> supported = True, analog_output = False \<rparr>,
               hardware = \<lparr> cartridge_adapter = adapter \<rparr> \<rparr> \<rparr> \<rparr>"

definition sample_env :: "int \<Rightarrow> coreInfoJSON \<Rightarrow> inventoryItem option \<Rightarrow> env" where
  "sample_env t ci item =
     \<lparr> store = atoms_default t t t, clock = t,
       CoreInfoSelectorFamily = (\<lambda>name. ci),
       CoreAuthorImageSelectorFamily = (\<lambda>name. ''author.png''),
       useInventoryItem = (\<lambda>name. item) \<rparr>"

definition sample_props :: "unit CoreInfoProps" where
  "sample_props = \<lparr> coreName = ''Spiritualized.GBC'', onBack = () \<rparr>"

definition hosted :: "string \<Rightarrow> inventoryItem option" where
  "hosted p = Some \<lparr> repository = \<lparr> platform = p \<rparr> \<rparr>"

section \<open>Properties of the view switcher\<close>

lemma menu_items_eq: "menu_items s = map (menu_item s) views"
  by (simp add: menu_items_def find_class_def rendered_def Layout_def elements_of_def
      has_class_def views_def menu_item_def)

lemma click_eq: "click v s = (if v \<in> set views then v else s)"
  by (simp add: click_def menu_items_eq views_def menu_item_def onClick_of_def)

lemma active_labels_eq: "active_labels s = filter (\<lambda>u. u = s) views"
  by (auto simp add: active_labels_def menu_items_eq views_def menu_item_def is_active_def
      class_names_def)

lemma content_region_eq:
  "content_region s =
     Some (Element ''div'' [(''className'', AStr ''layout__content'')]
       (if s = ''Screenshots''
        then [Suspense (Component ''Loader'' [] []) [Component ''Screenshots'' [] []]]
        else []))"
  by (simp add: content_region_def find_class_def rendered_def Layout_def elements_of_def
      has_class_def views_def menu_item_def)

lemma clicks_in_views:
  "s = [] \<or> s \<in> set views \<Longrightarrow> clicks vs s = [] \<or> clicks vs s \<in> set views"
  by (induction vs arbitrary: s) (auto simp add: click_eq)

lemma clicks_stay: "s \<in> set views \<Longrightarrow> clicks vs s \<in> set views"
  by (induction vs arbitrary: s) (auto simp add: click_eq)

lemma clicks_after_label: "\<exists>v\<in>set vs. v \<in> set views \<Longrightarrow> clicks vs s \<in> set views"
  by (induction vs arbitrary: s) (auto simp add: click_eq clicks_stay)

text \<open>
  Claim C2: clicking one of the four menu labels sets the active view to exactly that
  label, the menu entries marked active are then that label alone (an entry is marked
  exactly when its label equals the state), and a second click on the same label leaves
  the state as it is.
\<close>

theorem click_sets_active_view:
  "v \<in> set views \<Longrightarrow>
     click v s = v \<and>
     active_labels (click v s) = [v] \<and>
     active_labels s = filter (\<lambda>u. u = s) views \<and>
     click v (click v s) = click v s"
  by (auto simp add: click_eq active_labels_eq views_def)

theorem click_sets_active_view_witness:
  "''Cores'' \<in> set views \<and>
   click ''Cores'' ''Saves'' = ''Cores'' \<and>
   active_labels (click ''Cores'' ''Saves'') = [''Cores''] \<and>
   click ''Cores'' (click ''Cores'' ''Saves'') = click ''Cores'' ''Saves''"
proof -
  have h: "''Cores'' \<in> set views"
    by (simp add: views_def)
  from click_sets_active_view [OF h, of "''Saves''"] h show ?thesis
    by blast
qed

text \<open>
  Claim C3: the selection state starts as the empty string, and whenever the active view
  is not "Screenshots" (the initial state included) the content region is shown with no
  children.
\<close>

theorem content_empty:
  "viewName_init = [] \<and>
   content_region viewName_init =
     Some (Element ''div'' [(''className'', AStr ''layout__content'')] []) \<and>
   (viewName \<noteq> ''Screenshots'' \<longrightarrow>
      content_region viewName =
        Some (Element ''div'' [(''className'', AStr ''layout__content'')] []))"
  by (simp add: content_region_eq viewName_init_def)

theorem content_empty_witness:
  "''Cores'' \<noteq> ''Screenshots'' \<and>
   content_region ''Cores'' =
     Some (Element ''div'' [(''className'', AStr ''layout__content'')] [])"
  using content_empty [of "''Cores''"] by simp

text \<open>
  Claim C8: after any sequence of clicks from the initial state the active view is the
  empty string or one of the four labels, and once the sequence holds a click on a menu
  label the state is one of the four labels, so never the empty string again.
\<close>

theorem Layout_reachable:
  "(clicks vs viewName_init = [] \<or> clicks vs viewName_init \<in> set views) \<and>
   ((\<exists>v\<in>set vs. v \<in> set views) \<longrightarrow>
      clicks vs viewName_init \<in> set views \<and> clicks vs viewName_init \<noteq> [])"
proof -
  have a: "clicks vs viewName_init = [] \<or> clicks vs viewName_init \<in> set views"
    using clicks_in_views [of viewName_init vs] by (simp add: viewName_init_def)
  have b: "clicks vs viewName_init \<in> set views \<Longrightarrow> clicks vs viewName_init \<noteq> []"
    by (auto simp add: views_def)
  show ?thesis using a b clicks_after_label by blast
qed

theorem Layout_reachable_witness:
  "(\<exists>v\<in>set [''Cores'', ''Saves'']. v \<in> set views) \<and>
   clicks [''Cores'', ''Saves''] viewName_init \<in> set views \<and>
   clicks [''Cores'', ''Saves''] viewName_init \<noteq> []"
proof -
  have h: "\<exists>v\<in>set [''Cores'', ''Saves'']. v \<in> set views"
    by (simp add: views_def)
  from Layout_reachable [of "[''Cores'', ''Saves'']"] h show ?thesis
    by blast
qed

section \<open>Properties of the Core Info Panel\<close>

lemma when_truthy_cong:
  "s = s' \<Longrightarrow> (\<And>v. v \<noteq> [] \<Longrightarrow> f v = g v) \<Longrightarrow> when_truthy s f = when_truthy s' g"
  by (simp add: when_truthy_def split: option.splits)

lemma when_truthy_simps:
  "when_truthy None f = []"
  "when_truthy (Some []) f = []"
  "v \<noteq> [] \<Longrightarrow> when_truthy (Some v) f = f v"
  by (simp_all add: when_truthy_def)

lemma when_truthy_filter: "filter P (when_truthy s f) = when_truthy s (\<lambda>v. filter P (f v))"
  by (simp add: when_truthy_def split: option.splits)

lemma when_truthy_elements:
  "concat (map elements (when_truthy s f)) = when_truthy s (\<lambda>v. concat (map elements (f v)))"
  by (simp add: when_truthy_def split: option.splits)

lemma when_truthy_Nil: "when_truthy s (\<lambda>v. []) = []"
  by (simp add: when_truthy_def split: option.splits)

lemma visible_append: "visible (xs @ ys) = visible xs @ visible ys"
  by (induction xs rule: visible.induct) simp_all

lemma visible_Cons2: "visible (x # y # r) = visible [x] @ visible (y # r)"
  using visible_append [of "[x]" "y # r"] by simp

lemma visible_components:
  "visible (map (\<lambda>x. Component n (as x) (cs x)) xs) = map (\<lambda>x. Component n (as x) (cs x)) xs"
  by (induction xs) simp_all

lemma visible_Text_nonempty: "s \<noteq> [] \<Longrightarrow> visible [Text s] = [Text s]"
  by simp

lemma visible_info_row: "l \<noteq> [] \<Longrightarrow> visible [info_row l body] = [info_row l (visible body)]"
  by (simp add: info_row_def)

lemma visible_checkbox: "visible [checkbox b] = [checkbox b]"
  by (simp add: checkbox_def)

lemma visible_and_string: "visible [and_string s f] = when_truthy s (\<lambda>v. visible [f v])"
  by (simp add: and_string_def when_truthy_def split: option.splits)

lemma visible_releases:
  "visible [case inventoryItem of
              None \<Rightarrow> JNull
            | Some item \<Rightarrow>
                if platform (repository item) = ''github''
                then Component ''Releases'' [(''inventoryItem'', AInventory item)] []
                else JFalse] = releases_of inventoryItem"
  by (simp add: releases_of_def split: option.splits)

lemma rendered_CoreInfo_view:
  "rendered (CoreInfo_view props coreInfo authorImageSrc inventoryItem) =
     [Element ''div'' [(''className'', AStr ''core-info'')]
        (Component ''Controls''
           [(''controls'', AControls
               [\<lparr> ctype = ''back-button'', ctext = ''Back to list'', onClick = onBack props \<rparr>])]
           [] #
         Element ''h3'' [(''className'', AStr ''core-info__title'')]
           (visible [Text (shortname (metadata (core coreInfo)))]) #
         map (\<lambda>platformId.
                Component ''PlatformImage''
                  [(''className'', AStr ''core-info__image''),
                   (''platformId'', AStr platformId),
                   (''key'', AStr platformId)] [])
           (platform_ids (metadata (core coreInfo)))
         @ [Element ''section'' [(''className'', AStr ''core-info__info'')]
              (section_shown props coreInfo authorImageSrc inventoryItem)])]"
  unfolding rendered_def CoreInfo_view_def section_shown_def
  apply (simp only: visible.simps(6,7) visible_append visible_components visible_Cons2)
  apply (simp only: visible.simps(1,6,7) visible_info_row visible_checkbox visible_and_string visible_releases append_Cons append_Nil append_Nil2 
       cong: when_truthy_cong)
  apply (simp  del: visible.simps(4) add: visible_Text_nonempty visible_info_row visible_checkbox visible_and_string visible_releases
       cong: when_truthy_cong)
  done

lemma elements_visible_Text: "concat (map elements (visible [Text s])) = []"
  by simp

lemma elements_components:
  "concat (map elements (map (\<lambda>x. Component n (as x) (cs x)) xs)) = []"
  by (induction xs) simp_all

lemma elements_releases: "concat (map elements (releases_of i)) = []"
  by (auto simp add: releases_of_def split: option.splits)

lemma elements_info_row:
  "elements (info_row l body) =
     info_row l body # Element ''strong'' [] [Text l] # concat (map elements body)"
  by (simp add: info_row_def)

lemma has_class_info_row: "has_class c (info_row l body) = (c = ''core-info__info-row'')"
  by (auto simp add: info_row_def has_class_def)

lemma row_label_info_row: "row_label (info_row l body) = l"
  by (simp add: info_row_def row_label_def)

lemma children_info_row: "children (info_row l body) = Element ''strong'' [] [Text l] # body"
  by (simp add: info_row_def)

lemma is_component_info_row: "is_component n (info_row l body) = False"
  by (simp add: info_row_def)



lemma elements_of_CoreInfo_view:
  "elements_of (rendered (CoreInfo_view props coreInfo authorImageSrc inventoryItem)) =
     Element ''div'' [(''className'', AStr ''core-info'')]
        (children (hd (rendered (CoreInfo_view props coreInfo authorImageSrc inventoryItem)))) #
     Element ''h3'' [(''className'', AStr ''core-info__title'')]
           (visible [Text (shortname (metadata (core coreInfo)))]) #
     Element ''section'' [(''className'', AStr ''core-info__info'')]
              (section_shown props coreInfo authorImageSrc inventoryItem) #
     concat (map elements (section_shown props coreInfo authorImageSrc inventoryItem))"
  by (simp add: rendered_CoreInfo_view elements_of_def elements_components elements_visible_Text
      del: visible.simps(4))




lemma section_children_CoreInfo_view:
  "section_children (rendered (CoreInfo_view props coreInfo authorImageSrc inventoryItem)) =
     section_shown props coreInfo authorImageSrc inventoryItem"
  by (simp add: section_children_def elements_of_CoreInfo_view)


lemma has_class_Element:
  "has_class c (Element t as cs) = (map_of as ''className'' = Some (AStr c))"
  by (simp add: has_class_def)

lemma has_class_checkbox: "has_class c (checkbox b) = False"
  by (simp add: has_class_def checkbox_def)

lemma elements_checkbox: "elements (checkbox b) = [checkbox b]"
  by (simp add: checkbox_def)

lemma rows_of_section_shown:
  "filter (has_class ''core-info__info-row'')
     (concat (map elements (section_shown props coreInfo authorImageSrc inventoryItem))) =
   rows_shown props coreInfo authorImageSrc"
  apply (simp add: section_shown_def rows_shown_def elements_info_row has_class_info_row
      when_truthy_filter when_truthy_elements elements_releases elements_visible_Text
      has_class_checkbox elements_checkbox has_class_Element
      del: visible.simps(4))
  done



lemma info_rows_CoreInfo_view:
  "info_rows (rendered (CoreInfo_view props coreInfo authorImageSrc inventoryItem)) =
     rows_shown props coreInfo authorImageSrc"
  by (simp add: info_rows_def elements_of_CoreInfo_view has_class_Element rows_of_section_shown)

lemma labelled_rows_url:
  "labelled_rows ''URL:'' (rendered (CoreInfo_view props coreInfo authorImageSrc inventoryItem)) =
     when_truthy (url (metadata (core coreInfo)))
       (\<lambda>u. [info_row ''URL:'' [Component ''Link'' [(''href'', AStr u)] [Text u]]])"
  by (simp add: labelled_rows_def info_rows_CoreInfo_view rows_shown_def row_label_info_row
      when_truthy_filter when_truthy_Nil del: visible.simps(4))

lemma labelled_rows_date:
  "labelled_rows ''Release Date:''
     (rendered (CoreInfo_view props coreInfo authorImageSrc inventoryItem)) =
     when_truthy (date_release (metadata (core coreInfo)))
       (\<lambda>d. [info_row ''Release Date:'' [Text d]])"
  by (simp add: labelled_rows_def info_rows_CoreInfo_view rows_shown_def row_label_info_row
      when_truthy_filter when_truthy_Nil del: visible.simps(4))

lemma row_checkbox_info_row:
  "row_checkbox (info_row l [checkbox b]) = Some (l, b)"
  by (simp add: row_checkbox_def children_info_row row_label_info_row is_checkbox_def
      checkbox_def checked_of_def)

lemma row_checkbox_none:
  "find is_checkbox body = None \<Longrightarrow> row_checkbox (info_row l body) = None"
  by (simp add: row_checkbox_def children_info_row is_checkbox_def)

lemma map_filter_append: "List.map_filter f (xs @ ys) = List.map_filter f xs @ List.map_filter f ys"
  by (simp add: List.map_filter_def)

lemma map_filter_when_truthy:
  "(\<And>v. List.map_filter g (f v) = []) \<Longrightarrow> List.map_filter g (when_truthy s f) = []"
  by (simp add: when_truthy_def split: option.splits)

lemma checkboxes_CoreInfo_view:
  "checkboxes (rendered (CoreInfo_view props coreInfo authorImageSrc inventoryItem)) =
     [(''Supports Sleep:'', sleep_supported (framework (core coreInfo))),
      (''Supports Dock:'', supported (dock (framework (core coreInfo)))),
      (''Supports Dock Analog:'', analog_output (dock (framework (core coreInfo)))),
      (''Supports Cartridges:'', cartridge_adapter (hardware (framework (core coreInfo))) \<noteq> - 1)]"
  by (simp add: checkboxes_def info_rows_CoreInfo_view rows_shown_def map_filter_append
      row_checkbox_info_row row_checkbox_none map_filter_when_truthy
      is_checkbox_def del: visible.simps(4))

lemma filter_releases: "filter (is_component ''Releases'') (releases_of i) = releases_of i"
  by (auto simp add: releases_of_def split: option.splits)

lemma releases_panels_CoreInfo_view:
  "releases_panels (rendered (CoreInfo_view props coreInfo authorImageSrc inventoryItem)) =
     releases_of inventoryItem"
  by (simp add: releases_panels_def section_children_CoreInfo_view section_shown_def
      is_component_info_row when_truthy_filter when_truthy_Nil filter_releases
      del: visible.simps(4))

lemma dropWhile_when_truthy:
  "(\<And>v. \<forall>x\<in>set (f v). P x) \<Longrightarrow> dropWhile P (when_truthy s f @ ys) = dropWhile P ys"
  by (simp add: when_truthy_def split: option.splits)

lemma after_row_CoreInfo_view:
  "after_row ''Supports Cartridges:''
     (rendered (CoreInfo_view props coreInfo authorImageSrc inventoryItem)) =
     releases_of inventoryItem"
  by (simp add: after_row_def section_children_CoreInfo_view section_shown_def
      has_class_info_row row_label_info_row has_class_Element dropWhile_when_truthy
      del: visible.simps(4))


lemma CoreInfo_eq:
  "CoreInfo e props =
     CoreInfo_view props (CoreInfoSelectorFamily e (coreName props))
       (CoreAuthorImageSelectorFamily e (coreName props)) (useInventoryItem e (coreName props))"
  by (simp add: CoreInfo_def)

lemma sample_env_reads:
  "CoreInfoSelectorFamily (sample_env t ci item) name = ci"
  "CoreAuthorImageSelectorFamily (sample_env t ci item) name = ''author.png''"
  "useInventoryItem (sample_env t ci item) name = item"
  by (simp_all add: sample_env_def)

lemma sample_core_reads:
  "url (metadata (core (sample_core u d a))) = u"
  "date_release (metadata (core (sample_core u d a))) = d"
  "cartridge_adapter (hardware (framework (core (sample_core u d a)))) = a"
  by (simp_all add: sample_core_def)

text \<open>
  Claim C1: the cartridge-support checkbox of the panel is checked for every value of
  the cartridge-adapter field other than the sentinel \<open>-1\<close>, and unchecked for exactly
  that value.
\<close>

theorem cartridge_checkbox_checked:
  "cartridge_checkbox (rendered (CoreInfo e props)) =
     Some (cartridge_adapter (hardware (framework (core (CoreInfoSelectorFamily e (coreName props)))))
             \<noteq> - 1)"
  by (simp add: cartridge_checkbox_def CoreInfo_eq checkboxes_CoreInfo_view)

lemma when_truthy_map: "map g (when_truthy s f) = when_truthy s (\<lambda>v. map g (f v))"
  by (simp add: when_truthy_def split: option.splits)

lemma when_truthy_all:
  "(\<And>v. v \<noteq> [] \<Longrightarrow> \<forall>x\<in>set (f v). P x) \<Longrightarrow> \<forall>x\<in>set (when_truthy s f). P x"
  by (cases s) (auto simp add: when_truthy_def)

lemma rows_shown_labels:
  "map row_label (rows_shown props coreInfo authorImageSrc) =
     [''Version:'', ''Author:'']
     @ when_truthy (url (metadata (core coreInfo))) (\<lambda>u. [''URL:''])
     @ when_truthy (date_release (metadata (core coreInfo))) (\<lambda>d. [''Release Date:''])
     @ [''Supports Sleep:'', ''Supports Dock:'', ''Supports Dock Analog:'',
        ''Supports Cartridges:'']"
  by (simp add: rows_shown_def when_truthy_map row_label_info_row del: visible.simps(4))

lemma rows_shown_filled:
  "\<forall>r\<in>set (rows_shown props coreInfo authorImageSrc).
     row_label r \<noteq> [] \<and> tl (children r) \<noteq> []"
proof -
  have u: "\<forall>r\<in>set (when_truthy (url (metadata (core coreInfo)))
             (\<lambda>u. [info_row ''URL:'' [Component ''Link'' [(''href'', AStr u)] [Text u]]])).
           row_label r \<noteq> [] \<and> tl (children r) \<noteq> []"
    by (rule when_truthy_all) (simp add: row_label_info_row children_info_row)
  have d: "\<forall>r\<in>set (when_truthy (date_release (metadata (core coreInfo)))
             (\<lambda>d. [info_row ''Release Date:'' [Text d]])).
           row_label r \<noteq> [] \<and> tl (children r) \<noteq> []"
    by (rule when_truthy_all) (simp add: row_label_info_row children_info_row)
  show ?thesis
    using u d
    by (simp add: rows_shown_def row_label_info_row children_info_row ball_Un
        del: visible.simps(4))
qed

text \<open>
  Claim C4, as the code has it: a URL that is absent or the empty string gives no URL
  row; a non-empty URL gives exactly one URL row, whose link has that URL as its target
  and as its text. The release date likewise: no row when it is absent or empty, and
  exactly one row holding the date otherwise. No empty row stands in for a missing
  field: the info rows of the panel are the two fixed rows, the URL and release-date
  rows when their field is non-empty, and the four checkbox rows, and every info row
  has a label and something shown after it.
\<close>

theorem url_and_date_rows:
  "CoreInfoSelectorFamily e (coreName props) = coreInfo \<Longrightarrow>
   (url (metadata (core coreInfo)) = None \<or> url (metadata (core coreInfo)) = Some [] \<longrightarrow>
      labelled_rows ''URL:'' (rendered (CoreInfo e props)) = []) \<and>
   (\<forall>u. url (metadata (core coreInfo)) = Some u \<and> u \<noteq> [] \<longrightarrow>
      labelled_rows ''URL:'' (rendered (CoreInfo e props)) =
        [info_row ''URL:'' [Component ''Link'' [(''href'', AStr u)] [Text u]]]) \<and>
   (date_release (metadata (core coreInfo)) = None \<or>
    date_release (metadata (core coreInfo)) = Some [] \<longrightarrow>
      labelled_rows ''Release Date:'' (rendered (CoreInfo e props)) = []) \<and>
   (\<forall>d. date_release (metadata (core coreInfo)) = Some d \<and> d \<noteq> [] \<longrightarrow>
      labelled_rows ''Release Date:'' (rendered (CoreInfo e props)) =
        [info_row ''Release Date:'' [Text d]]) \<and>
   map row_label (info_rows (rendered (CoreInfo e props))) =
     [''Version:'', ''Author:'']
     @ (case url (metadata (core coreInfo)) of
          None \<Rightarrow> [] | Some u \<Rightarrow> if u = [] then [] else [''URL:''])
     @ (case date_release (metadata (core coreInfo)) of
          None \<Rightarrow> [] | Some d \<Rightarrow> if d = [] then [] else [''Release Date:''])
     @ [''Supports Sleep:'', ''Supports Dock:'', ''Supports Dock Analog:'',
        ''Supports Cartridges:''] \<and>
   (\<forall>r\<in>set (info_rows (rendered (CoreInfo e props))).
      row_label r \<noteq> [] \<and> tl (children r) \<noteq> [])"
proof -
  assume h: "CoreInfoSelectorFamily e (coreName props) = coreInfo"
  have rows: "info_rows (rendered (CoreInfo e props)) =
      rows_shown props coreInfo (CoreAuthorImageSelectorFamily e (coreName props))"
    using h by (simp add: CoreInfo_eq info_rows_CoreInfo_view)
  have a: "(url (metadata (core coreInfo)) = None \<or> url (metadata (core coreInfo)) = Some [] \<longrightarrow>
      labelled_rows ''URL:'' (rendered (CoreInfo e props)) = []) \<and>
   (\<forall>u. url (metadata (core coreInfo)) = Some u \<and> u \<noteq> [] \<longrightarrow>
      labelled_rows ''URL:'' (rendered (CoreInfo e props)) =
        [info_row ''URL:'' [Component ''Link'' [(''href'', AStr u)] [Text u]]])"
    using h by (auto simp add: CoreInfo_eq labelled_rows_url when_truthy_simps)
  have b: "(date_release (metadata (core coreInfo)) = None \<or>
    date_release (metadata (core coreInfo)) = Some [] \<longrightarrow>
      labelled_rows ''Release Date:'' (rendered (CoreInfo e props)) = []) \<and>
   (\<forall>d. date_release (metadata (core coreInfo)) = Some d \<and> d \<noteq> [] \<longrightarrow>
      labelled_rows ''Release Date:'' (rendered (CoreInfo e props)) =
        [info_row ''Release Date:'' [Text d]])"
    using h by (auto simp add: CoreInfo_eq labelled_rows_date when_truthy_simps)
  have c: "map row_label (info_rows (rendered (CoreInfo e props))) =
     [''Version:'', ''Author:'']
     @ (case url (metadata (core coreInfo)) of
          None \<Rightarrow> [] | Some u \<Rightarrow> if u = [] then [] else [''URL:''])
     @ (case date_release (metadata (core coreInfo)) of
          None \<Rightarrow> [] | Some d \<Rightarrow> if d = [] then [] else [''Release Date:''])
     @ [''Supports Sleep:'', ''Supports Dock:'', ''Supports Dock Analog:'',
        ''Supports Cartridges:'']"
    by (simp only: rows rows_shown_labels when_truthy_def)
  have d: "\<forall>r\<in>set (info_rows (rendered (CoreInfo e props))).
      row_label r \<noteq> [] \<and> tl (children r) \<noteq> []"
    unfolding rows by (rule rows_shown_filled)
  from a b c d show ?thesis by blast
qed

theorem url_and_date_rows_witness:
  "labelled_rows ''URL:''
     (rendered (CoreInfo (sample_env 0 (sample_core None (Some ''2022-08-01'') 0) None)
        sample_props)) = [] \<and>
   labelled_rows ''Release Date:''
     (rendered (CoreInfo (sample_env 0 (sample_core None (Some ''2022-08-01'') 0) None)
        sample_props)) = [info_row ''Release Date:'' [Text ''2022-08-01'']] \<and>
   map row_label
     (info_rows (rendered (CoreInfo (sample_env 0 (sample_core None (Some ''2022-08-01'') 0) None)
        sample_props))) =
     [''Version:'', ''Author:'', ''Release Date:'', ''Supports Sleep:'', ''Supports Dock:'',
      ''Supports Dock Analog:'', ''Supports Cartridges:''] \<and>
   labelled_rows ''URL:''
     (rendered (CoreInfo (sample_env 0 (sample_core (Some ''https://example.org'') None 0) None)
        sample_props)) =
     [info_row ''URL:''
        [Component ''Link'' [(''href'', AStr ''https://example.org'')]
           [Text ''https://example.org'']]] \<and>
   labelled_rows ''Release Date:''
     (rendered (CoreInfo (sample_env 0 (sample_core (Some ''https://example.org'') None 0) None)
        sample_props)) = [] \<and>
   labelled_rows ''URL:''
     (rendered (CoreInfo (sample_env 0 (sample_core (Some []) (Some []) 0) None)
        sample_props)) = [] \<and>
   labelled_rows ''Release Date:''
     (rendered (CoreInfo (sample_env 0 (sample_core (Some []) (Some []) 0) None)
        sample_props)) = [] \<and>
   map row_label
     (info_rows (rendered (CoreInfo (sample_env 0 (sample_core (Some []) (Some []) 0) None)
        sample_props))) =
     [''Version:'', ''Author:'', ''Supports Sleep:'', ''Supports Dock:'',
      ''Supports Dock Analog:'', ''Supports Cartridges:''] \<and>
   filter (\<lambda>r. row_label r = [] \<or> tl (children r) = [])
     (info_rows (rendered (CoreInfo (sample_env 0 (sample_core (Some []) (Some []) 0) None)
        sample_props))) = []"
proof -
  have a: "CoreInfoSelectorFamily (sample_env 0 (sample_core None (Some ''2022-08-01'') 0) None)
             (coreName sample_props) = sample_core None (Some ''2022-08-01'') 0"
    by (simp add: sample_env_reads)
  have b: "CoreInfoSelectorFamily
             (sample_env 0 (sample_core (Some ''https://example.org'') None 0) None)
             (coreName sample_props) = sample_core (Some ''https://example.org'') None 0"
    by (simp add: sample_env_reads)
  have c: "CoreInfoSelectorFamily (sample_env 0 (sample_core (Some []) (Some []) 0) None)
             (coreName sample_props) = sample_core (Some []) (Some []) 0"
    by (simp add: sample_env_reads)
  from url_and_date_rows [OF a] url_and_date_rows [OF b] url_and_date_rows [OF c]
  show ?thesis
    by (simp add: sample_core_reads filter_empty_conv)
qed

text \<open>
  The claim as first stated fails: a URL that is present but empty is not null, and the
  panel shows no URL row for it.
\<close>

theorem empty_url_is_not_shown:
  "url (metadata (core (CoreInfoSelectorFamily (sample_env 0 (sample_core (Some []) None 0) None)
      (coreName sample_props)))) \<noteq> None \<and>
   length (labelled_rows ''URL:''
     (rendered (CoreInfo (sample_env 0 (sample_core (Some []) None 0) None) sample_props))) \<noteq> 1"
  by (simp add: CoreInfo_eq labelled_rows_url sample_env_reads sample_core_reads
      when_truthy_simps)

text \<open>
  Claim C9: a URL that is present but the empty string gives no URL row, and a release
  date that is present but the empty string gives no release-date row, since the guard
  tests truthiness.
\<close>

theorem empty_string_no_row:
  "CoreInfoSelectorFamily e (coreName props) = coreInfo \<Longrightarrow>
   (url (metadata (core coreInfo)) = Some [] \<longrightarrow>
      labelled_rows ''URL:'' (rendered (CoreInfo e props)) = []) \<and>
   (date_release (metadata (core coreInfo)) = Some [] \<longrightarrow>
      labelled_rows ''Release Date:'' (rendered (CoreInfo e props)) = [])"
  by (auto simp add: CoreInfo_eq labelled_rows_url labelled_rows_date when_truthy_simps)

theorem empty_string_no_row_witness:
  "url (metadata (core (sample_core (Some []) (Some []) 0))) = Some [] \<and>
   date_release (metadata (core (sample_core (Some []) (Some []) 0))) = Some [] \<and>
   labelled_rows ''URL:''
     (rendered (CoreInfo (sample_env 0 (sample_core (Some []) (Some []) 0) None)
        sample_props)) = [] \<and>
   labelled_rows ''Release Date:''
     (rendered (CoreInfo (sample_env 0 (sample_core (Some []) (Some []) 0) None)
        sample_props)) = []"
proof -
  have a: "CoreInfoSelectorFamily (sample_env 0 (sample_core (Some []) (Some []) 0) None)
             (coreName sample_props) = sample_core (Some []) (Some []) 0"
    by (simp add: sample_env_reads)
  from empty_string_no_row [OF a] show ?thesis
    by (simp add: sample_core_reads)
qed

text \<open>
  Claim C7: the first three checkboxes of the panel are those for sleep, dock and dock
  analog support, each checked exactly when the core's flag is set; the only other
  checkbox is the cartridge one, which is derived from the adapter field.
\<close>

theorem capability_checkboxes:
  "take 3 (checkboxes (rendered (CoreInfo e props))) =
     [(''Supports Sleep:'',
         sleep_supported (framework (core (CoreInfoSelectorFamily e (coreName props))))),
      (''Supports Dock:'',
         supported (dock (framework (core (CoreInfoSelectorFamily e (coreName props)))))),
      (''Supports Dock Analog:'',
         analog_output (dock (framework (core (CoreInfoSelectorFamily e (coreName props))))))] \<and>
   map fst (drop 3 (checkboxes (rendered (CoreInfo e props)))) = [''Supports Cartridges:'']"
  by (simp add: CoreInfo_eq checkboxes_CoreInfo_view)

text \<open>
  Claim C5: the releases sub-panel is among the section's children exactly when an
  inventory item exists and its repository platform is "github"; it is then the one
  element for that item, and in every case nothing but the releases sub-panel follows
  the last info row, so nothing stands in for it when it is absent.
\<close>

theorem releases_panel_iff:
  "useInventoryItem e (coreName props) = inventoryItem \<Longrightarrow>
   (releases_panels (rendered (CoreInfo e props)) \<noteq> []) =
     (\<exists>item. inventoryItem = Some item \<and> platform (repository item) = ''github'') \<and>
   (\<forall>item. inventoryItem = Some item \<and> platform (repository item) = ''github'' \<longrightarrow>
      releases_panels (rendered (CoreInfo e props)) =
        [Component ''Releases'' [(''inventoryItem'', AInventory item)] []]) \<and>
   after_row ''Supports Cartridges:'' (rendered (CoreInfo e props)) =
     releases_panels (rendered (CoreInfo e props))"
  by (auto simp add: CoreInfo_eq releases_panels_CoreInfo_view after_row_CoreInfo_view
      releases_of_def split: option.splits)

theorem releases_panel_iff_witness:
  "releases_panels
     (rendered (CoreInfo (sample_env 0 (sample_core None None 0) (hosted ''github''))
        sample_props)) =
     [Component ''Releases''
        [(''inventoryItem'', AInventory \<lparr> repository = \<lparr> platform = ''github'' \<rparr> \<rparr>)] []] \<and>
   releases_panels
     (rendered (CoreInfo (sample_env 0 (sample_core None None 0) (hosted ''gitlab''))
        sample_props)) = [] \<and>
   after_row ''Supports Cartridges:''
     (rendered (CoreInfo (sample_env 0 (sample_core None None 0) (hosted ''gitlab''))
        sample_props)) = [] \<and>
   releases_panels
     (rendered (CoreInfo (sample_env 0 (sample_core None None 0) None) sample_props)) = [] \<and>
   after_row ''Supports Cartridges:''
     (rendered (CoreInfo (sample_env 0 (sample_core None None 0) None) sample_props)) = []"
proof -
  have a: "useInventoryItem (sample_env 0 (sample_core None None 0) (hosted ''github''))
             (coreName sample_props) = hosted ''github''"
    by (simp add: sample_env_reads)
  have b: "useInventoryItem (sample_env 0 (sample_core None None 0) (hosted ''gitlab''))
             (coreName sample_props) = hosted ''gitlab''"
    by (simp add: sample_env_reads)
  have c: "useInventoryItem (sample_env 0 (sample_core None None 0) None)
             (coreName sample_props) = None"
    by (simp add: sample_env_reads)
  from releases_panel_iff [OF a] releases_panel_iff [OF b] releases_panel_iff [OF c]
  show ?thesis
    by (simp add: hosted_def)
qed

end
